theory Spec2Isabelle
  imports Complex_Main "HOL-Library.Product_Lexorder"
begin

section \<open>JavaScript numbers\<close>

text \<open>
  The purchase handler computes the token amount with JavaScript's \<^verbatim>\<open>Number\<close>
  type, an IEEE 754 binary64 value. A number is modelled by its exact rational value,
  with the three non-finite values apart; every arithmetic operation rounds the exact
  result to the nearest binary64 value, ties to the even mantissa. The sign of zero is
  not represented: \<^verbatim>\<open>-0\<close> and \<^verbatim>\<open>+0\<close> are both \<open>Fin 0\<close> (they print alike and
  are both falsy).
\<close>

datatype number = NaN | PosInf | NegInf | Fin rat

text \<open>The number of digits of a positive integer \<open>a\<close> in base \<open>b\<close>.\<close>

function digit_count :: "int \<Rightarrow> int \<Rightarrow> int" where
  "digit_count b a = (if a \<le> 0 \<or> b \<le> 1 then 0 else digit_count b (a div b) + 1)"
  by pat_completeness auto
termination
proof (relation "measure (\<lambda>(b, a). nat a)")
  show "wf (measure (\<lambda>(b, a). nat a))" by simp
next
  fix b a :: int
  assume "\<not> (a \<le> 0 \<or> b \<le> 1)"
  then have "0 < a" and "1 < b" by simp_all
  then have "a div b < a" by (rule int_div_less_self)
  with \<open>0 < a\<close> show "((b, a div b), (b, a)) \<in> measure (\<lambda>(b, a). nat a)" by simp
qed

declare digit_count.simps [simp del]

text \<open>
  \<open>floor_log b a\<close> is the integer \<open>e\<close> with \<open>b ^ e \<le> a < b ^ (e + 1)\<close>, for a rational
  \<open>a > 0\<close>: the digit counts of numerator and denominator give it up to one.
\<close>

definition floor_log :: "int \<Rightarrow> rat \<Rightarrow> int" where
  "floor_log b a =
     (let (p, q) = quotient_of a;
          d = digit_count b p - digit_count b q
      in if of_int b powi d \<le> a then d else d - 1)"

definition round_half_even :: "rat \<Rightarrow> int" where
  "round_half_even x =
     (let f = \<lfloor>x\<rfloor>; d = x - of_int f
      in if d < 1 / 2 then f
         else if 1 / 2 < d then f + 1
         else if even f then f else f + 1)"

text \<open>
  Rounding to binary64: 53 bits of mantissa \<open>m\<close>, the exponent \<open>p\<close> of the last
  mantissa bit at least \<open>-1074\<close> (subnormal numbers) and at most \<open>971\<close>: the
  rounded value \<open>m * 2 ^ p\<close> overflows to infinity when it reaches \<open>2 ^ 1024\<close>.
\<close>

definition round_to_double :: "rat \<Rightarrow> number" where
  "round_to_double q =
     (if q = 0 then Fin 0
      else let a = \<bar>q\<bar>;
               p = max (floor_log 2 a - 52) (- 1074);
               m = round_half_even (a / 2 powi p)
           in if 971 < p \<or> (p = 971 \<and> 2 ^ 53 \<le> m)
              then (if 0 < q then PosInf else NegInf)
              else Fin ((if 0 < q then 1 else - 1) * of_int m * 2 powi p))"

fun num_mul :: "number \<Rightarrow> number \<Rightarrow> number" where
  "num_mul (Fin a) (Fin b) = round_to_double (a * b)"
| "num_mul NaN _ = NaN"
| "num_mul _ NaN = NaN"
| "num_mul (Fin a) PosInf = (if a = 0 then NaN else if 0 < a then PosInf else NegInf)"
| "num_mul (Fin a) NegInf = (if a = 0 then NaN else if 0 < a then NegInf else PosInf)"
| "num_mul PosInf (Fin b) = (if b = 0 then NaN else if 0 < b then PosInf else NegInf)"
| "num_mul NegInf (Fin b) = (if b = 0 then NaN else if 0 < b then NegInf else PosInf)"
| "num_mul PosInf PosInf = PosInf"
| "num_mul PosInf NegInf = NegInf"
| "num_mul NegInf PosInf = NegInf"
| "num_mul NegInf NegInf = PosInf"

text \<open>
  Division. A zero divisor is read as \<^verbatim>\<open>+0\<close>; the program only ever divides by the
  constant price.
\<close>

fun num_div :: "number \<Rightarrow> number \<Rightarrow> number" where
  "num_div (Fin a) (Fin b) =
     (if b = 0 then (if a = 0 then NaN else if 0 < a then PosInf else NegInf)
      else round_to_double (a / b))"
| "num_div NaN _ = NaN"
| "num_div _ NaN = NaN"
| "num_div (Fin a) PosInf = Fin 0"
| "num_div (Fin a) NegInf = Fin 0"
| "num_div PosInf (Fin b) = (if 0 \<le> b then PosInf else NegInf)"
| "num_div NegInf (Fin b) = (if 0 \<le> b then NegInf else PosInf)"
| "num_div _ _ = NaN"

text \<open>\<^verbatim>\<open>a ** n\<close> for a natural exponent, taken as correctly rounded.\<close>

fun num_pow :: "number \<Rightarrow> nat \<Rightarrow> number" where
  "num_pow (Fin a) n = round_to_double (a ^ n)"
| "num_pow x n = (if n = 0 then Fin 1 else if x = NegInf \<and> even n then PosInf else x)"

text \<open>
  The finite binary64 values above zero are the products \<open>m * 2 ^ e\<close> of a mantissa \<open>m\<close>
  of at most 53 bits and a power of two within the exponent range.
\<close>

definition double_value :: "int \<Rightarrow> int \<Rightarrow> rat" where
  "double_value m e = of_int m * 2 powi e"

definition in_double_range :: "int \<Rightarrow> int \<Rightarrow> bool" where
  "in_double_range m e = (0 < m \<and> m < 2 ^ 53 \<and> - 1074 \<le> e \<and> e \<le> 971)"

fun num_add :: "number \<Rightarrow> number \<Rightarrow> number" where
  "num_add (Fin a) (Fin b) = round_to_double (a + b)"
| "num_add NaN _ = NaN"
| "num_add _ NaN = NaN"
| "num_add PosInf NegInf = NaN"
| "num_add NegInf PosInf = NaN"
| "num_add PosInf _ = PosInf"
| "num_add _ PosInf = PosInf"
| "num_add NegInf _ = NegInf"
| "num_add _ NegInf = NegInf"


section \<open>Decimal strings\<close>

definition is_digit :: "char \<Rightarrow> bool" where
  "is_digit c = (c \<in> set ''0123456789'')"

definition digit_val :: "char \<Rightarrow> int" where
  "digit_val c = of_char c - 48"

definition digit_char :: "int \<Rightarrow> char" where
  "digit_char d = ''0123456789'' ! nat d"

definition int_of_digits :: "string \<Rightarrow> int" where
  "int_of_digits ds = foldl (\<lambda>n c. 10 * n + digit_val c) 0 ds"

text \<open>
  The decimal digits of a non-negative integer, without leading zeros
  (\<^verbatim>\<open>BigInt.toString\<close>).
\<close>

function digits_of_int :: "int \<Rightarrow> string" where
  "digits_of_int n =
     (if n < 10 then [digit_char n] else digits_of_int (n div 10) @ [digit_char (n mod 10)])"
  by pat_completeness auto
termination
  by (relation "measure nat") auto

declare digits_of_int.simps [simp del]

text \<open>
  The decimal literals \<^verbatim>\<open>/^(-?)([0-9]*)\.?([0-9]*)$/\<close> with at least one digit: the
  sign, the digits before the point and the digits after it.
\<close>

definition split_decimal :: "string \<Rightarrow> (bool \<times> string \<times> string) option" where
  "split_decimal s =
     (let (neg, r) = (case s of c # t \<Rightarrow> if c = CHR ''-'' then (True, t) else (False, s)
                               | [] \<Rightarrow> (False, s));
          whole = takeWhile is_digit r;
          r' = dropWhile is_digit r;
          r'' = (case r' of c # t \<Rightarrow> if c = CHR ''.'' then t else r' | [] \<Rightarrow> r');
          decs = takeWhile is_digit r'';
          rest = dropWhile is_digit r''
      in if rest = [] \<and> (whole \<noteq> [] \<or> decs \<noteq> []) then Some (neg, whole, decs)
         else None)"

definition decimal_value :: "bool \<times> string \<times> string \<Rightarrow> rat" where
  "decimal_value d =
     (case d of (neg, whole, decs) \<Rightarrow>
        (if neg then - 1 else 1) *
        (of_int (int_of_digits whole) + of_int (int_of_digits decs) / 10 ^ length decs))"

section \<open>Conversions between numbers and strings\<close>

text \<open>
  \<^verbatim>\<open>Number.prototype.toString\<close> prints the shortest decimal \<open>s * 10 ^ e\<close> that reads
  back as the same number. With \<open>k\<close> digits, the only candidates are the two
  \<open>k\<close>-digit decimals around the number; the search starts at one digit, and 17
  digits always suffice for a binary64 value.
\<close>

definition decimal_candidates :: "rat \<Rightarrow> nat \<Rightarrow> (int \<times> int) list" where
  "decimal_candidates x k =
     (let e = floor_log 10 x + 1 - int k;
          lo = \<lfloor>x / 10 powi e\<rfloor>
      in filter (\<lambda>(s, e). round_to_double (of_int s * 10 powi e) = Fin x)
           [(lo, e), (lo + 1, e)])"

definition closest_decimal :: "rat \<Rightarrow> (int \<times> int) list \<Rightarrow> int \<times> int" where
  "closest_decimal x cs =
     (case cs of
        [(lo, e), (hi, e')] \<Rightarrow>
          (let dl = x - of_int lo * 10 powi e; dh = of_int hi * 10 powi e' - x
           in if dl < dh then (lo, e) else if dh < dl then (hi, e')
              else if even lo then (lo, e) else (hi, e'))
      | c # _ \<Rightarrow> c
      | [] \<Rightarrow> (0, 0))"

fun shortest_decimal :: "rat \<Rightarrow> nat \<Rightarrow> nat \<Rightarrow> int \<times> int" where
  "shortest_decimal x k 0 = (\<lfloor>x / 10 powi (floor_log 10 x + 1 - int k)\<rfloor>, floor_log 10 x + 1 - int k)"
| "shortest_decimal x k (Suc fuel) =
     (case decimal_candidates x k of
        [] \<Rightarrow> shortest_decimal x (Suc k) fuel
      | cs \<Rightarrow> closest_decimal x cs)"

function strip_zeros :: "int \<times> int \<Rightarrow> int \<times> int" where
  "strip_zeros (s, e) =
     (if 0 < s \<and> s mod 10 = 0 then strip_zeros (s div 10, e + 1) else (s, e))"
  by pat_completeness auto
termination
  by (relation "measure (\<lambda>(s, e). nat s)") auto

declare strip_zeros.simps [simp del]

definition positive_toString :: "rat \<Rightarrow> string" where
  "positive_toString x =
     (let (s, e) = strip_zeros (shortest_decimal x 1 17);
          ds = digits_of_int s;
          k = int (length ds);
          n = k + e
      in if k \<le> n \<and> n \<le> 21 then ds @ replicate (nat (n - k)) CHR ''0''
         else if 0 < n \<and> n \<le> 21 then take (nat n) ds @ ''.'' @ drop (nat n) ds
         else if - 6 < n \<and> n \<le> 0 then ''0.'' @ replicate (nat (- n)) CHR ''0'' @ ds
         else let es = (if n - 1 < 0 then ''-'' else ''+'') @ digits_of_int \<bar>n - 1\<bar>
              in if k = 1 then ds @ ''e'' @ es
                 else hd ds # ''.'' @ tl ds @ ''e'' @ es)"

fun Number_toString :: "number \<Rightarrow> string" where
  "Number_toString NaN = ''NaN''"
| "Number_toString PosInf = ''Infinity''"
| "Number_toString NegInf = ''-Infinity''"
| "Number_toString (Fin q) =
     (if q = 0 then ''0''
      else if q < 0 then ''-'' @ positive_toString (- q)
      else positive_toString q)"

text \<open>
  Reading a string as a number (the coercion of \<^verbatim>\<open>usdtAmount * ...\<close>): the decimal
  literal is rounded to the nearest binary64 value. Only the plain decimal literals
  above are read; JavaScript reads further forms (a leading \<^verbatim>\<open>+\<close>, exponents,
  hexadecimal, \<^verbatim>\<open>Infinity\<close>, surrounding white space), which are \<open>NaN\<close> here. The
  purchase handler rejects every such string in \<open>parseUnits\<close> before its number is
  used.
\<close>

definition StringToNumber :: "string \<Rightarrow> number" where
  "StringToNumber s =
     (if s = [] then Fin 0
      else case split_decimal s of
             Some d \<Rightarrow> round_to_double (decimal_value d)
           | None \<Rightarrow> NaN)"

section \<open>Fixed-point conversions of the chain library\<close>

text \<open>
  What the chain library refuses, with the offending value: a string that is not a
  decimal literal, a decimal with too many digits after the point, a number of smallest
  units beyond 512 bits, and an amount that does not fit the \<^verbatim>\<open>uint256\<close> argument of a
  contract method. In the first two the value is the string, in the last two a BigInt.
\<close>

datatype fault =
    InvalidString string
  | TooManyDecimals string
  | Overflow int
  | OutOfBounds int

text \<open>
  \<^verbatim>\<open>ethers.parseUnits(value, decimals)\<close>: the string must be a plain decimal literal;
  its digits after the point are padded with zeros to \<open>decimals\<close> places, digits beyond
  that must all be zero, and the result, an integer number of smallest units, must fit
  512 bits with sign.
\<close>

definition parseUnits :: "string \<Rightarrow> nat \<Rightarrow> fault + int" where
  "parseUnits v decimals =
     (case split_decimal v of
        None \<Rightarrow> Inl (InvalidString v)
      | Some (neg, whole, decs) \<Rightarrow>
          (let padded = decs @ replicate (decimals - length decs) CHR ''0''
           in if \<not> list_all (\<lambda>c. c = CHR ''0'') (drop decimals padded)
              then Inl (TooManyDecimals v)
              else let val = (if neg then - 1 else 1) *
                             int_of_digits (whole @ take decimals padded)
                   in if - (2 ^ 511) \<le> val \<and> val < 2 ^ 511 then Inr val
                      else Inl (Overflow val)))"

text \<open>
  The encoding of an amount as the \<^verbatim>\<open>uint256\<close> argument of a contract method, which
  the library does before anything is sent to the chain.
\<close>

definition uint256 :: "int \<Rightarrow> fault + int" where
  "uint256 v = (if 0 \<le> v \<and> v < 2 ^ 256 then Inr v else Inl (OutOfBounds v))"

text \<open>
  An exception as the handler sees it: the fields it inspects, and whether
  \<^verbatim>\<open>JSON.stringify\<close> can print the error object, which it cannot when the object
  holds a BigInt.
\<close>

record js_error =
  code :: string
  reason :: "string option"
  message :: string
  serializable :: bool

text \<open>
  The error object the library raises for a fault. Its message is the library's text
  for the fault, which names the argument, the value, the code and the version of the
  library; that text is a parameter.
\<close>

definition fault_error :: "(fault \<Rightarrow> string) \<Rightarrow> fault \<Rightarrow> js_error" where
  "fault_error wording f =
     \<lparr>code = (case f of
                InvalidString _ \<Rightarrow> ''INVALID_ARGUMENT''
              | TooManyDecimals _ \<Rightarrow> ''NUMERIC_FAULT''
              | Overflow _ \<Rightarrow> ''NUMERIC_FAULT''
              | OutOfBounds _ \<Rightarrow> ''INVALID_ARGUMENT''),
      reason = None,
      message = wording f,
      serializable = (case f of
                        InvalidString _ \<Rightarrow> True
                      | TooManyDecimals _ \<Rightarrow> True
                      | Overflow _ \<Rightarrow> False
                      | OutOfBounds _ \<Rightarrow> False)\<rparr>"

text \<open>
  \<^verbatim>\<open>ethers.formatUnits(value, decimals)\<close>: the digits with the decimal point inserted,
  at least one digit on each side of it, no other leading or trailing zeros.
\<close>

definition trim_whole :: "string \<Rightarrow> string" where
  "trim_whole w = (let t = dropWhile (\<lambda>c. c = CHR ''0'') w in if t = [] then ''0'' else t)"

definition trim_decimals :: "string \<Rightarrow> string" where
  "trim_decimals d =
     (let t = rev (dropWhile (\<lambda>c. c = CHR ''0'') (rev d)) in if t = [] then ''0'' else t)"

definition formatUnits :: "int \<Rightarrow> nat \<Rightarrow> string" where
  "formatUnits val decimals =
     (let negative = (if val < 0 then ''-'' else []);
          str = digits_of_int \<bar>val\<bar>
      in if decimals = 0 then negative @ str
         else let padded = replicate (Suc decimals - length str) CHR ''0'' @ str;
                  index = length padded - decimals
              in negative @ trim_whole (take index padded) @ ''.'' @
                 trim_decimals (drop index padded))"

section \<open>Token sale configuration\<close>

definition TOKEN_PRICE_USDT :: number where "TOKEN_PRICE_USDT = Fin 1"
definition TOKEN_DECIMALS :: nat where "TOKEN_DECIMALS = 18"
definition USDT_DECIMALS :: nat where "USDT_DECIMALS = 6"

definition calculateTokenAmount :: "number \<Rightarrow> number" where
  "calculateTokenAmount usdtAmount =
     num_div (num_mul usdtAmount (num_pow (Fin 10) TOKEN_DECIMALS)) TOKEN_PRICE_USDT"

text \<open>
  The token amount the specification asks for, as an exact value: the amount divided by
  the price, which is 1, scaled to the 18 decimals of the token.
\<close>

definition exact_token_amount :: "rat \<Rightarrow> rat" where
  "exact_token_amount usdt = usdt / 1 * 10 ^ 18"

section \<open>The ledger\<close>

datatype tx_type = BUY | APPROVE

datatype tx_status = SUCCESS | FAILED | PENDING

text \<open>The transaction schema; \<open>timestamp\<close> is in milliseconds since the epoch.\<close>

record transaction =
  buyerAddress :: string
  txType :: tx_type
  amount :: string
  status :: tx_status
  txHash :: string
  timestamp :: int
  tokenPrice :: number
  usdtAmount :: string

text \<open>
  The store is a list of documents in insertion order; a document is identified by its
  position. Saving a new document appends it, saving it again replaces it in place. The
  store is taken as reliable and requests are served one after the other: connection
  failures are outside the model, and so is the unique index the schema declares on
  \<open>txHash\<close>, which the sentinel hash of pending and failed records would violate.
\<close>

type_synonym ledger = "transaction list"

definition save_new :: "transaction \<Rightarrow> ledger \<Rightarrow> nat \<times> ledger" where
  "save_new doc l = (length l, l @ [doc])"

definition save_existing :: "nat \<Rightarrow> transaction \<Rightarrow> ledger \<Rightarrow> ledger" where
  "save_existing i doc l = l[i := doc]"

section \<open>Queries over the ledger\<close>

text \<open>
  The reporting handlers only read the store: \<^verbatim>\<open>find\<close>, \<^verbatim>\<open>countDocuments\<close> and
  \<^verbatim>\<open>aggregate\<close>. Like the purchase handler they return the ledger they leave.
\<close>

definition find_docs :: "(transaction \<Rightarrow> bool) \<Rightarrow> ledger \<Rightarrow> transaction list" where
  "find_docs query l = filter query l"

definition countDocuments :: "(transaction \<Rightarrow> bool) \<Rightarrow> ledger \<Rightarrow> nat" where
  "countDocuments query l = length (filter query l)"

text \<open>
  \<^verbatim>\<open>.sort({ timestamp: -1 })\<close>: newest first. The store leaves the order of documents
  with equal timestamps open; the model keeps them in insertion order.
\<close>

definition newest_first :: "transaction list \<Rightarrow> transaction list" where
  "newest_first ts = sort_key (\<lambda>t. - timestamp t) ts"

fun type_name :: "tx_type \<Rightarrow> string" where
  "type_name BUY = ''BUY''"
| "type_name APPROVE = ''APPROVE''"

fun status_name :: "tx_status \<Rightarrow> string" where
  "status_name SUCCESS = ''SUCCESS''"
| "status_name FAILED = ''FAILED''"
| "status_name PENDING = ''PENDING''"

text \<open>
  A date range of the query string, \<^verbatim>\<open>startDate\<close> and \<^verbatim>\<open>endDate\<close>, each already
  read as a date (milliseconds since the epoch) when present and not empty.
\<close>

definition in_range :: "int option \<Rightarrow> int option \<Rightarrow> transaction \<Rightarrow> bool" where
  "in_range startDate endDate t =
     ((case startDate of None \<Rightarrow> True | Some d \<Rightarrow> d \<le> timestamp t) \<and>
      (case endDate of None \<Rightarrow> True | Some d \<Rightarrow> timestamp t \<le> d))"

subsection \<open>GET /api/transaction-history\<close>

text \<open>
  The query parameters \<^verbatim>\<open>page\<close> and \<^verbatim>\<open>limit\<close> are taken as already read as
  non-negative integers when present.
\<close>

record history_query =
  q_address :: "string option"
  q_page :: "nat option"
  q_limit :: "nat option"
  q_type :: "string option"
  q_status :: "string option"
  q_startDate :: "int option"
  q_endDate :: "int option"

definition history_filter :: "history_query \<Rightarrow> string \<Rightarrow> transaction \<Rightarrow> bool" where
  "history_filter q address t =
     (buyerAddress t = address \<and>
      (case q_type q of None \<Rightarrow> True | Some ty \<Rightarrow> ty = [] \<or> type_name (txType t) = ty) \<and>
      (case q_status q of None \<Rightarrow> True | Some st \<Rightarrow> st = [] \<or> status_name (status t) = st) \<and>
      in_range (q_startDate q) (q_endDate q) t)"

text \<open>
  \<open>pages\<close> is \<^verbatim>\<open>Math.ceil(total / limit)\<close>; with a limit of zero the quotient is not
  finite and the JSON field is \<^verbatim>\<open>null\<close>, here \<open>None\<close>. The quotient is taken exactly
  (document counts stay far below \<open>2 ^ 53\<close>).
\<close>

record pagination =
  total :: nat
  page :: nat
  limit :: nat
  pages :: "nat option"

subsection \<open>GET /api/stats\<close>

record stats_query =
  s_startDate :: "int option"
  s_endDate :: "int option"

definition stats_match :: "stats_query \<Rightarrow> transaction \<Rightarrow> bool" where
  "stats_match q t =
     (in_range (s_startDate q) (s_endDate q) t \<and> txType t = BUY \<and> status t = SUCCESS)"

text \<open>
  \<^verbatim>\<open>$toDouble\<close> reads a decimal string as a binary64 number, and the accumulators
  \<^verbatim>\<open>$sum\<close> and \<^verbatim>\<open>$avg\<close> add and divide binary64 numbers inside the store; the model
  adds the documents of a group in the order of the ledger. A string that is not a
  decimal literal makes the aggregation fail.
\<close>

definition toDouble :: "string \<Rightarrow> number option" where
  "toDouble s = map_option (\<lambda>d. round_to_double (decimal_value d)) (split_decimal s)"





text \<open>
  The order of the store on numbers: NaN below \<open>-\<infinity>\<close>, below the finite numbers,
  below \<open>\<infinity>\<close>.
\<close>

fun num_rank :: "number \<Rightarrow> int \<times> rat" where
  "num_rank NaN = (0, 0)"
| "num_rank NegInf = (1, 0)"
| "num_rank (Fin q) = (2, q)"
| "num_rank PosInf = (3, 0)"


text \<open>The key of a descending sort.\<close>

definition descending :: "number \<Rightarrow> int \<times> rat" where
  "descending x = (case num_rank x of (r, q) \<Rightarrow> (- r, - q))"

text \<open>A document whose two amounts are decimal literals, as \<^verbatim>\<open>$toDouble\<close> needs them.\<close>

definition decimal_amounts :: "transaction \<Rightarrow> bool" where
  "decimal_amounts t = (toDouble (amount t) \<noteq> None \<and> toDouble (usdtAmount t) \<noteq> None)"

text \<open>A matched document with its two amounts converted.\<close>

record row =
  r_doc :: transaction
  r_amount :: number
  r_usdt :: number

definition to_row :: "transaction \<Rightarrow> row option" where
  "to_row t =
     (case (toDouble (amount t), toDouble (usdtAmount t)) of
        (Some a, Some u) \<Rightarrow> Some \<lparr>r_doc = t, r_amount = a, r_usdt = u\<rparr>
      | _ \<Rightarrow> None)"

fun to_rows :: "transaction list \<Rightarrow> row list option" where
  "to_rows [] = Some []"
| "to_rows (t # ts) =
     (case to_row t of
        None \<Rightarrow> None
      | Some r \<Rightarrow> (case to_rows ts of None \<Rightarrow> None | Some rs \<Rightarrow> Some (r # rs)))"

text \<open>
  A \<^verbatim>\<open>$group\<close> stage with the three accumulators every pipeline of the handler
  uses: the sum of the token amounts, the sum of the stablecoin amounts and the count.
  The first document of a group starts its sums (adding a binary64 number to zero gives
  that number); groups appear in the order of their first document.
\<close>

record 'k accum =
  g_id :: 'k
  g_tokens :: number
  g_usdt :: number
  g_count :: nat

fun group_add :: "'k \<Rightarrow> row \<Rightarrow> 'k accum list \<Rightarrow> 'k accum list" where
  "group_add k r [] = [\<lparr>g_id = k, g_tokens = r_amount r, g_usdt = r_usdt r, g_count = 1\<rparr>]"
| "group_add k r (g # gs) =
     (if g_id g = k
      then g\<lparr>g_tokens := num_add (g_tokens g) (r_amount r),
             g_usdt := num_add (g_usdt g) (r_usdt r),
             g_count := g_count g + 1\<rparr> # gs
      else g # group_add k r gs)"

definition group_by :: "(row \<Rightarrow> 'k) \<Rightarrow> row list \<Rightarrow> 'k accum list" where
  "group_by key rs = foldl (\<lambda>gs r. group_add (key r) r gs) [] rs"

text \<open>
  The calendar day of a timestamp, in UTC, as the number of the day since the epoch.
  The store renders it as \<^verbatim>\<open>%Y-%m-%d\<close>, a string whose order is the order of the
  days (for years of four digits).
\<close>

definition day_of :: "int \<Rightarrow> int" where
  "day_of ms = ms div 86400000"

text \<open>The totals of the response (the \<^verbatim>\<open>_id\<close> of the single group is left out).\<close>

record total_stats =
  totalTokensSold :: number
  totalUsdtRaised :: number
  transactionCount :: nat
  averagePurchaseAmount :: number

definition total_of :: "unit accum \<Rightarrow> total_stats" where
  "total_of g =
     \<lparr>totalTokensSold = g_tokens g, totalUsdtRaised = g_usdt g,
      transactionCount = g_count g,
      averagePurchaseAmount = num_div (g_usdt g) (Fin (of_nat (g_count g)))\<rparr>"

definition no_stats :: total_stats where
  "no_stats =
     \<lparr>totalTokensSold = Fin 0, totalUsdtRaised = Fin 0, transactionCount = 0,
      averagePurchaseAmount = Fin 0\<rparr>"

subsection \<open>GET /api/export-transactions\<close>

record export_query =
  e_address :: "string option"
  e_format :: "string option"

definition join :: "string \<Rightarrow> string list \<Rightarrow> string" where
  "join sep xs = (case xs of [] \<Rightarrow> [] | x # ys \<Rightarrow> x @ concat (map (\<lambda>y. sep @ y) ys))"

text \<open>
  One line of the CSV export; \<open>toISOString\<close>, the rendering of a date, is a parameter.
\<close>

definition csv_row :: "(int \<Rightarrow> string) \<Rightarrow> transaction \<Rightarrow> string list" where
  "csv_row toISOString tx =
     [toISOString (timestamp tx), type_name (txType tx), amount tx,
      status_name (status tx), txHash tx, Number_toString (tokenPrice tx), usdtAmount tx]"

definition csv_header :: "string list" where
  "csv_header =
     [''Date'', ''Type'', ''Amount'', ''Status'', ''Transaction Hash'', ''Token Price'',
      ''USDT Amount'']"

section \<open>The purchase handler\<close>

subsection \<open>Request values\<close>

text \<open>
  A field of the JSON request body: absent, a number or a string (the other JSON
  values are not modelled).
\<close>

datatype jsval = JUndefined | JNumber number | JString string

fun falsy :: "jsval \<Rightarrow> bool" where
  "falsy JUndefined = True"
| "falsy (JNumber x) = (x = Fin 0 \<or> x = NaN)"
| "falsy (JString s) = (s = [])"

fun ToNumber :: "jsval \<Rightarrow> number" where
  "ToNumber JUndefined = NaN"
| "ToNumber (JNumber x) = x"
| "ToNumber (JString s) = StringToNumber s"

text \<open>
  \<^verbatim>\<open>usdtAmount.toString()\<close>. On an absent value JavaScript raises a type error; the
  handler has rejected an absent amount before it converts it.
\<close>

fun js_toString :: "jsval \<Rightarrow> string" where
  "js_toString (JNumber x) = Number_toString x"
| "js_toString (JString s) = s"
| "js_toString JUndefined = ''undefined''"

text \<open>
  The amount a request asks for, as an exact value: the value of the decimal literal,
  or of the finite number.
\<close>

fun requested :: "jsval \<Rightarrow> rat option" where
  "requested (JString s) = map_option decimal_value (split_decimal s)"
| "requested (JNumber (Fin x)) = Some x"
| "requested _ = None"

record buy_body =
  body_usdtAmount :: jsval
  body_buyerAddress :: "string option"

subsection \<open>The chain gateway\<close>

text \<open>
  The two contracts as the handler sees them: each call returns a value or raises. A
  write returns the hash of its transaction once the transaction is confirmed
  (\<^verbatim>\<open>wait()\<close> included). \<open>now\<close> is the clock read when a document is created, and
  \<open>library_message\<close> the text of the library for a fault.
\<close>

record chain =
  ADMIN_ADDRESS :: string
  balanceOf :: "string \<Rightarrow> js_error + int"
  allowance :: "string \<Rightarrow> string \<Rightarrow> js_error + int"
  transferFrom :: "string \<Rightarrow> string \<Rightarrow> int \<Rightarrow> js_error + string"
  mint :: "string \<Rightarrow> int \<Rightarrow> js_error + string"
  now :: int
  library_message :: "fault \<Rightarrow> string"

text \<open>
  The two writes as the handler calls them: the library encodes the amount, and raises
  when it does not fit, before the chain is asked.
\<close>

definition call_transferFrom :: "chain \<Rightarrow> string \<Rightarrow> string \<Rightarrow> int \<Rightarrow> js_error + string" where
  "call_transferFrom env owner recipient v =
     (case uint256 v of
        Inl f \<Rightarrow> Inl (fault_error (library_message env) f)
      | Inr u \<Rightarrow> transferFrom env owner recipient u)"

definition call_mint :: "chain \<Rightarrow> string \<Rightarrow> int \<Rightarrow> js_error + string" where
  "call_mint env recipient v =
     (case uint256 v of
        Inl f \<Rightarrow> Inl (fault_error (library_message env) f)
      | Inr u \<Rightarrow> mint env recipient u)"

datatype chain_write = TransferFrom string string int | Mint string int

subsection \<open>Responses\<close>

datatype body =
    Error string
  | ErrorDetails string string
  | ErrorRequiredAvailable string string string
  | ErrorRequiredApproved string string string
  | Purchase bool string string string
  | History "transaction list" pagination
  | Stats total_stats "int accum list" "string accum list"
  | Transactions "transaction list"
  | Csv string

record response =
  http_status :: nat
  json :: body

text \<open>
  The outer \<^verbatim>\<open>catch\<close> of the handler. It first logs \<^verbatim>\<open>JSON.stringify(error, null, 2)\<close>;
  on an error object that cannot be printed this raises inside the \<^verbatim>\<open>catch\<close>, and
  the handler ends without sending a response (\<open>None\<close>).
\<close>

definition purchase_failure :: "js_error \<Rightarrow> response option" where
  "purchase_failure error =
     (if \<not> serializable error then None
      else if code error = ''INSUFFICIENT_FUNDS''
      then Some \<lparr>http_status = 400,
                  json = Error ''Insufficient funds for gas (admin wallet)''\<rparr>
      else if code error = ''UNPREDICTABLE_GAS_LIMIT''
      then Some \<lparr>http_status = 400, json = Error
             ''Transaction would fail on chain. Check gas limit, balance, and contract logic.''\<rparr>
      else if code error = ''CALL_EXCEPTION''
      then Some \<lparr>http_status = 400, json = Error (''Blockchain call failed: '' @
             (case reason error of
                None \<Rightarrow> ''unknown revert''
              | Some r \<Rightarrow> if r = [] then ''unknown revert'' else r))\<rparr>
      else Some \<lparr>http_status = 500,
                 json = ErrorDetails ''Failed to process token purchase'' (message error)\<rparr>)"

subsection \<open>POST /api/buy-tokens\<close>

text \<open>
  The handler returns its response, if it sends one, the ledger it leaves and the chain
  writes it attempted, in order.
\<close>

definition buy_tokens ::
  "chain \<Rightarrow> buy_body \<Rightarrow> ledger \<Rightarrow> response option \<times> ledger \<times> chain_write list" where
  "buy_tokens env req l =
     (case body_buyerAddress req of
        None \<Rightarrow>
          (Some \<lparr>http_status = 400, json = Error ''Missing required parameters''\<rparr>, l, [])
      | Some buyer \<Rightarrow>
     if falsy (body_usdtAmount req) \<or> buyer = []
     then (Some \<lparr>http_status = 400, json = Error ''Missing required parameters''\<rparr>, l, [])
     else
     let tokenAmount = calculateTokenAmount (ToNumber (body_usdtAmount req)) in
     case parseUnits (js_toString (body_usdtAmount req)) USDT_DECIMALS of
       Inl f \<Rightarrow> (purchase_failure (fault_error (library_message env) f), l, [])
     | Inr usdtAmountWithDecimals \<Rightarrow>
     case parseUnits (Number_toString tokenAmount) TOKEN_DECIMALS of
       Inl f \<Rightarrow> (purchase_failure (fault_error (library_message env) f), l, [])
     | Inr tokenAmountWithDecimals \<Rightarrow>
     case balanceOf env buyer of
       Inl e \<Rightarrow> (purchase_failure e, l, [])
     | Inr buyerBalance \<Rightarrow>
     if buyerBalance < usdtAmountWithDecimals
     then (Some \<lparr>http_status = 400,
                  json = ErrorRequiredAvailable ''Insufficient USDT balance''
                    (formatUnits usdtAmountWithDecimals USDT_DECIMALS)
                    (formatUnits buyerBalance USDT_DECIMALS)\<rparr>, l, [])
     else
     case allowance env buyer (ADMIN_ADDRESS env) of
       Inl e \<Rightarrow> (purchase_failure e, l, [])
     | Inr allowed \<Rightarrow>
     if allowed < usdtAmountWithDecimals
     then (Some \<lparr>http_status = 400, json = ErrorRequiredApproved
             ''Insufficient USDT allowance. Please approve USDT transfer first.''
             (formatUnits usdtAmountWithDecimals USDT_DECIMALS)
             (formatUnits allowed USDT_DECIMALS)\<rparr>, l, [])
     else
     let pendingTx = \<lparr>buyerAddress = buyer, txType = BUY,
                      amount = Number_toString tokenAmount, status = PENDING,
                      txHash = ''pending'', timestamp = now env,
                      tokenPrice = TOKEN_PRICE_USDT,
                      usdtAmount = js_toString (body_usdtAmount req)\<rparr>;
         (doc, l1) = save_new pendingTx l;
         pay = TransferFrom buyer (ADMIN_ADDRESS env) usdtAmountWithDecimals;
         issue = Mint buyer tokenAmountWithDecimals
     in
     case call_transferFrom env buyer (ADMIN_ADDRESS env) usdtAmountWithDecimals of
       Inl e \<Rightarrow>
         (purchase_failure e, save_existing doc (pendingTx\<lparr>status := FAILED\<rparr>) l1, [pay])
     | Inr usdtTransferTx \<Rightarrow>
     case call_mint env buyer tokenAmountWithDecimals of
       Inl e \<Rightarrow>
         (purchase_failure e, save_existing doc (pendingTx\<lparr>status := FAILED\<rparr>) l1,
          [pay, issue])
     | Inr mintTx \<Rightarrow>
         (Some \<lparr>http_status = 200, json = Purchase True ''Token purchase successful'' mintTx
             (Number_toString tokenAmount)\<rparr>,
          save_existing doc (pendingTx\<lparr>status := SUCCESS, txHash := mintTx\<rparr>) l1,
          [pay, issue]))"

section \<open>The reporting handlers\<close>

text \<open>
  \<^verbatim>\<open>GET /api/transaction-history\<close>. A negative \<^verbatim>\<open>skip\<close> (page zero) is refused by
  the store; a \<^verbatim>\<open>limit\<close> of zero means no limit.
\<close>

definition transaction_history :: "history_query \<Rightarrow> ledger \<Rightarrow> response \<times> ledger" where
  "transaction_history q l =
     (case q_address q of
        None \<Rightarrow> (\<lparr>http_status = 400, json = Error ''Address is required''\<rparr>, l)
      | Some address \<Rightarrow>
     if address = []
     then (\<lparr>http_status = 400, json = Error ''Address is required''\<rparr>, l)
     else
     let page = (case q_page q of None \<Rightarrow> 1 | Some p \<Rightarrow> p);
         limit = (case q_limit q of None \<Rightarrow> 10 | Some n \<Rightarrow> n);
         query = history_filter q address;
         skip = (int page - 1) * int limit
     in
     if skip < 0
     then (\<lparr>http_status = 500, json = Error ''Failed to get transaction history''\<rparr>, l)
     else
     let found = drop (nat skip) (newest_first (find_docs query l));
         transactions = (if limit = 0 then found else take limit found);
         total = countDocuments query l
     in (\<lparr>http_status = 200,
          json = History transactions
            \<lparr>total = total, page = page, limit = limit,
             pages = (if limit = 0 then None
                      else Some (nat \<lceil>rat_of_nat total / rat_of_nat limit\<rceil>))\<rparr>\<rparr>, l))"

text \<open>\<^verbatim>\<open>GET /api/stats\<close>: three pipelines over the successful purchases.\<close>

definition sale_stats :: "stats_query \<Rightarrow> ledger \<Rightarrow> response \<times> ledger" where
  "sale_stats q l =
     (case to_rows (filter (stats_match q) l) of
        None \<Rightarrow> (\<lparr>http_status = 500, json = Error ''Failed to get sale statistics''\<rparr>, l)
      | Some rs \<Rightarrow>
     let totalStats = group_by (\<lambda>r. ()) rs;
         dailyStats = sort_key g_id (group_by (\<lambda>r. day_of (timestamp (r_doc r))) rs);
         topBuyers =
           take 10 (sort_key (\<lambda>g. descending (g_usdt g))
             (group_by (\<lambda>r. buyerAddress (r_doc r)) rs))
     in (\<lparr>http_status = 200,
          json = Stats (case totalStats of [] \<Rightarrow> no_stats | g # _ \<Rightarrow> total_of g)
                   dailyStats topBuyers\<rparr>, l))"

text \<open>\<^verbatim>\<open>GET /api/export-transactions\<close>; the format defaults to CSV.\<close>

definition export_transactions ::
  "(int \<Rightarrow> string) \<Rightarrow> export_query \<Rightarrow> ledger \<Rightarrow> response \<times> ledger" where
  "export_transactions toISOString q l =
     (case e_address q of
        None \<Rightarrow> (\<lparr>http_status = 400, json = Error ''Address is required''\<rparr>, l)
      | Some address \<Rightarrow>
     if address = []
     then (\<lparr>http_status = 400, json = Error ''Address is required''\<rparr>, l)
     else
     let transactions = newest_first (find_docs (\<lambda>t. buyerAddress t = address) l);
         format = (case e_format q of None \<Rightarrow> ''csv'' | Some f \<Rightarrow> f)
     in if format = ''csv''
        then (\<lparr>http_status = 200,
               json = Csv (join [CHR 10]
                 (map (join '','') (csv_header # map (csv_row toISOString) transactions)))\<rparr>, l)
        else (\<lparr>http_status = 200, json = Transactions transactions\<rparr>, l))"

section \<open>The server\<close>

text \<open>
  The requests that reach the ledger, served one after the other. A purchase request
  comes with the chain as it answers during that request.
\<close>

datatype request =
    BuyTokens chain buy_body
  | TransactionHistory history_query
  | SaleStats stats_query
  | ExportTransactions export_query

fun serve :: "(int \<Rightarrow> string) \<Rightarrow> request \<Rightarrow> ledger \<Rightarrow> ledger" where
  "serve toISOString (BuyTokens env req) l = fst (snd (buy_tokens env req l))"
| "serve toISOString (TransactionHistory q) l = snd (transaction_history q l)"
| "serve toISOString (SaleStats q) l = snd (sale_stats q l)"
| "serve toISOString (ExportTransactions q) l = snd (export_transactions toISOString q l)"

definition serve_all :: "(int \<Rightarrow> string) \<Rightarrow> request list \<Rightarrow> ledger \<Rightarrow> ledger" where
  "serve_all toISOString reqs l = foldl (\<lambda>l' r. serve toISOString r l') l reqs"

section \<open>Sample data\<close>

text \<open>
  The short message of a fault, with which the library's text for it starts. The sample
  chain uses it in place of the full text.
\<close>

fun fault_name :: "fault \<Rightarrow> string" where
  "fault_name (InvalidString v) = ''invalid FixedNumber string value''"
| "fault_name (TooManyDecimals v) = ''too many decimals for format''"
| "fault_name (Overflow v) = ''overflow''"
| "fault_name (OutOfBounds v) = ''value out-of-bounds''"

text \<open>
  A chain with a fixed balance and allowance whose transfers succeed and whose mint
  answers as given, a request of the buyer \<^verbatim>\<open>0xBuyer\<close>, and a reverted call, whose
  error object holds strings only.
\<close>

definition sample_chain :: "int \<Rightarrow> int \<Rightarrow> js_error + string \<Rightarrow> chain" where
  "sample_chain bal allowed minted =
     \<lparr>ADMIN_ADDRESS = ''0xAdmin'', balanceOf = (\<lambda>owner. Inr bal),
      allowance = (\<lambda>owner spender. Inr allowed),
      transferFrom = (\<lambda>from to v. Inr ''0xpay''), mint = (\<lambda>to v. minted),
      now = 1700000000000, library_message = fault_name\<rparr>"

definition sample_request :: "jsval \<Rightarrow> buy_body" where
  "sample_request v = \<lparr>body_usdtAmount = v, body_buyerAddress = Some ''0xBuyer''\<rparr>"

definition reverted :: js_error where
  "reverted =
     \<lparr>code = ''CALL_EXCEPTION'', reason = Some ''paused'',
      message = ''execution reverted'', serializable = True\<rparr>"

definition sample_sale :: "string \<Rightarrow> string \<Rightarrow> int \<Rightarrow> tx_status \<Rightarrow> transaction" where
  "sample_sale buyer usdt ts st =
     \<lparr>buyerAddress = buyer, txType = BUY, amount = usdt @ ''000000000000000000'',
      status = st, txHash = ''0x'' @ usdt, timestamp = ts, tokenPrice = Fin 1,
      usdtAmount = usdt\<rparr>"

text \<open>
  Two successful purchases of 10 and 20 stablecoins on the same day and a failed one.
\<close>

definition sample_ledger :: ledger where
  "sample_ledger =
     [sample_sale ''0xA'' ''10'' 1700000000000 SUCCESS,
      sample_sale ''0xB'' ''20'' 1700000600000 SUCCESS,
      sample_sale ''0xA'' ''7'' 1700003600000 FAILED]"


definition sample_page :: history_query where
  "sample_page =
     \<lparr>q_address = Some ''0xA'', q_page = Some 2, q_limit = Some 1, q_type = Some ''BUY'',
      q_status = None, q_startDate = None, q_endDate = None\<rparr>"


definition after_sales :: stats_query where
  "after_sales = \<lparr>s_startDate = Some 1800000000000, s_endDate = None\<rparr>"

section \<open>Rounding is exact on representable values\<close>

lemma digit_count_pos: "0 < a \<Longrightarrow> 1 < b \<Longrightarrow> 0 < digit_count b a"
proof (induction b a rule: digit_count.induct)
  case (1 b a)
  have "digit_count b a = digit_count b (a div b) + 1"
    using 1(2,3) by (subst digit_count.simps) simp
  moreover have "0 \<le> digit_count b (a div b)"
  proof (cases "0 < a div b")
    case True
    with 1 show ?thesis by simp
  next
    case False
    then show ?thesis by (subst digit_count.simps) simp
  qed
  ultimately show ?case by simp
qed

lemma digit_count_bounds:
  "0 < a \<Longrightarrow> 1 < b \<Longrightarrow>
   b ^ nat (digit_count b a - 1) \<le> a \<and> a < b ^ nat (digit_count b a)"
proof (induction b a rule: digit_count.induct)
  case (1 b a)
  have step: "digit_count b a = digit_count b (a div b) + 1"
    using 1(2,3) by (subst digit_count.simps) simp
  show ?case
  proof (cases "0 < a div b")
    case False
    with 1(2,3) have "a div b = 0" by (smt (verit) pos_imp_zdiv_nonneg_iff)
    then have "a < b" using 1(2,3) by (simp add: div_pos_pos_trivial zdiv_eq_0_iff)
    moreover have "digit_count b (a div b) = 0"
      using \<open>a div b = 0\<close> by (subst digit_count.simps) simp
    ultimately show ?thesis using 1(2) step by simp
  next
    case True
    let ?d = "digit_count b (a div b)"
    from True 1 have ih: "b ^ nat (?d - 1) \<le> a div b" "a div b < b ^ nat ?d" by simp_all
    have dpos: "0 < ?d" using True 1(3) by (rule digit_count_pos)
    have split: "a = b * (a div b) + a mod b" by simp
    have rem: "0 \<le> a mod b" "a mod b < b" using 1(3) by simp_all
    have "b * (a div b) \<le> a" using split rem(1) by linarith
    moreover have "b * b ^ nat (?d - 1) \<le> b * (a div b)" using ih(1) 1(3) by simp
    moreover have "b * b ^ nat (?d - 1) = b ^ nat ?d"
      using dpos by (metis Suc_nat_eq_nat_zadd1 add.commute diff_add_cancel diff_ge_0_iff_ge
        int_one_le_iff_zero_less power_Suc)
    ultimately have lo: "b ^ nat ?d \<le> a" by simp
    have "b * (a div b + 1) = b * (a div b) + b" by (simp add: distrib_left)
    then have "a < b * (a div b + 1)" using split rem(2) by linarith
    moreover have "b * (a div b + 1) \<le> b * b ^ nat ?d" using ih(2) 1(3) by simp
    ultimately have hi: "a < b ^ nat (?d + 1)" using dpos by (simp add: nat_add_distrib)
    from lo hi step show ?thesis by simp
  qed
qed


lemma digit_count_one: "1 < b \<Longrightarrow> digit_count b 1 = 1"
proof -
  assume b: "1 < b"
  then have "(1::int) div b = 0" by (simp add: div_pos_pos_trivial)
  moreover have "digit_count b 0 = 0" by (subst digit_count.simps) simp
  ultimately show ?thesis using b by (subst digit_count.simps) simp
qed

lemma floor_log_lower:
  assumes "0 < q"
  shows "2 powi (floor_log 2 q) \<le> q"
proof -
  obtain p r where pr: "quotient_of q = (p, r)" by (cases "quotient_of q")
  then have r: "0 < r" by (rule quotient_of_denom_pos)
  have q: "q = of_int p / of_int r" using pr by (rule quotient_of_div)
  have p: "0 < p" using assms r q by (simp add: zero_less_divide_iff)
  define d where "d = digit_count 2 p - digit_count 2 r"
  have fl: "floor_log 2 q = (if 2 powi d \<le> q then d else d - 1)"
    by (simp add: floor_log_def pr d_def)
  show ?thesis
  proof (cases "2 powi d \<le> q")
    case True
    then show ?thesis by (simp add: fl)
  next
    case False
    have dp: "0 < digit_count 2 p" using p by (simp add: digit_count_pos)
    have dr: "0 < digit_count 2 r" using r by (simp add: digit_count_pos)
    have "2 ^ nat (digit_count 2 p - 1) \<le> p" using digit_count_bounds [of p 2] p by simp
    then have "(of_int (2 ^ nat (digit_count 2 p - 1)) :: rat) \<le> of_int p"
      by (simp only: of_int_le_iff)
    then have lo: "(2::rat) powi (digit_count 2 p - 1) \<le> of_int p"
      using dp by (simp add: power_int_def)
    have "r < 2 ^ nat (digit_count 2 r)" using digit_count_bounds [of r 2] r by simp
    then have "(of_int r :: rat) < of_int (2 ^ nat (digit_count 2 r))"
      by (simp only: of_int_less_iff)
    then have hi: "(of_int r :: rat) \<le> 2 powi (digit_count 2 r)"
      using dr by (simp add: power_int_def)
    have "(2::rat) powi (d - 1) = 2 powi (digit_count 2 p - 1) / 2 powi (digit_count 2 r)"
      by (simp add: d_def power_int_diff)
    also have "\<dots> \<le> of_int p / of_int r"
      using lo hi r p by (intro frac_le) simp_all
    finally have "(2::rat) powi (d - 1) \<le> q" by (simp only: q)
    moreover have "floor_log 2 q = d - 1" using False by (simp add: fl)
    ultimately show ?thesis by simp
  qed
qed

lemma round_half_even_int: "round_half_even (of_int z) = z"
  by (simp add: round_half_even_def)

lemma round_to_double_pos:
  assumes "0 < q" and "max (floor_log 2 q - 52) (- 1074) = p"
    and "round_half_even (q / 2 powi p) = m"
    and "\<not> (971 < p \<or> (p = 971 \<and> 2 ^ 53 \<le> m))"
  shows "round_to_double q = Fin (of_int m * 2 powi p)"
  using assms by (simp add: round_to_double_def Let_def)

text \<open>
  An integer of at most 53 bits times a power of two within the exponent range is a
  binary64 value: rounding leaves it as it is.
\<close>

lemma round_to_double_exact:
  assumes "0 < m" and "m < 2 ^ 53" and "- 1074 \<le> e" and "e \<le> 971"
  shows "round_to_double (of_int m * 2 powi e) = Fin (of_int m * 2 powi e)"
proof -
  let ?q = "of_int m * (2::rat) powi e"
  have qpos: "0 < ?q" using assms(1) by simp
  have "2 powi (floor_log 2 ?q) \<le> ?q" using qpos by (rule floor_log_lower)
  also have "?q < 2 ^ 53 * 2 powi e"
  proof -
    have "(of_int m :: rat) < of_int (2 ^ 53)" using assms(2) by (simp only: of_int_less_iff)
    then show ?thesis by simp
  qed
  also have "\<dots> = (2::rat) powi (53 + e)" by (simp add: power_int_add)
  finally have lt: "(2::rat) powi (floor_log 2 ?q) < 2 powi (53 + e)" .
  have "floor_log 2 ?q < 53 + e"
  proof (rule ccontr)
    assume "\<not> floor_log 2 ?q < 53 + e"
    then have "53 + e \<le> floor_log 2 ?q" by simp
    then have "(2::rat) powi (53 + e) \<le> 2 powi (floor_log 2 ?q)"
      by (intro power_int_increasing) simp_all
    with lt show False by simp
  qed
  then have fl: "floor_log 2 ?q - 52 \<le> e" by simp
  define p where "p = max (floor_log 2 ?q - 52) (- 1074)"
  define k where "k = nat (e - p)"
  have p_le: "p \<le> e" using fl assms(3) by (simp add: p_def)
  have e_split: "e = int k + p" using p_le by (simp add: k_def)
  have "(2::rat) powi e = 2 powi (int k + p)" by (simp only: e_split [symmetric])
  also have "\<dots> = 2 ^ k * 2 powi p" by (simp add: power_int_add)
  finally have pow: "(2::rat) powi e = 2 ^ k * 2 powi p" .
  have quot: "?q / (2::rat) powi p = of_int (m * 2 ^ k)" by (simp add: pow)
  have rd: "round_half_even (?q / 2 powi p) = m * 2 ^ k"
    by (simp only: quot round_half_even_int)
  have no_over: "\<not> (971 < p \<or> (p = 971 \<and> 2 ^ 53 \<le> m * 2 ^ k))"
  proof -
    have "p \<le> 971" using p_le assms(4) by simp
    moreover have "m * 2 ^ k < 2 ^ 53" if "p = 971"
    proof -
      from that p_le assms(4) have "e = p" by simp
      then have "k = 0" by (simp add: k_def)
      then show ?thesis using assms(2) by simp
    qed
    ultimately show ?thesis by auto
  qed
  have "round_to_double ?q = Fin (of_int (m * 2 ^ k) * 2 powi p)"
    using qpos p_def [symmetric] rd no_over by (rule round_to_double_pos)
  also have "of_int (m * 2 ^ k) * (2::rat) powi p = ?q" by (simp add: pow)
  finally show ?thesis .
qed


lemma round_to_double_value:
  assumes "in_double_range m e"
  shows "round_to_double (double_value m e) = Fin (double_value m e)"
  using assms unfolding in_double_range_def double_value_def
  by (intro round_to_double_exact) simp_all



section \<open>The purchase handler: token amount\<close>

lemma num_pow_ten: "num_pow (Fin 10) TOKEN_DECIMALS = Fin (10 ^ 18)"
proof -
  have "round_to_double (of_int (5 ^ 18) * 2 powi 18) = Fin (of_int (5 ^ 18) * 2 powi 18)"
    by (rule round_to_double_exact) simp_all
  then show ?thesis by (simp add: TOKEN_DECIMALS_def)
qed

lemma calculateTokenAmount_of_exact_product:
  assumes "round_to_double (x * 10 ^ 18) = Fin (x * 10 ^ 18)"
  shows "calculateTokenAmount (Fin x) = Fin (x * 10 ^ 18)"
proof -
  have d: "num_div (Fin a) (Fin 1) = round_to_double a" for a by simp
  have "calculateTokenAmount (Fin x) = num_div (num_mul (Fin x) (Fin (10 ^ 18))) (Fin 1)"
    by (simp only: calculateTokenAmount_def num_pow_ten TOKEN_PRICE_USDT_def)
  also have "\<dots> = round_to_double (x * 10 ^ 18)"
    by (simp only: num_mul.simps assms d)
  finally show ?thesis by (simp only: assms)
qed

text \<open>
  The number the handler computes with is the requested amount when that amount is a
  binary64 value.
\<close>

lemma split_decimal_empty: "split_decimal [] = None"
  by (simp add: split_decimal_def)

lemma ToNumber_requested:
  assumes "requested v = Some d" and "round_to_double d = Fin d"
  shows "ToNumber v = Fin d"
proof (cases v)
  case JUndefined
  with assms(1) show ?thesis by simp
next
  case (JNumber x)
  with assms(1) show ?thesis by (cases x) simp_all
next
  case (JString s)
  with assms(1) obtain dec where dec: "split_decimal s = Some dec" "decimal_value dec = d"
    by auto
  then have "s \<noteq> []" using split_decimal_empty by auto
  then show ?thesis using JString dec assms(2) by (simp add: StringToNumber_def)
qed



lemma calculateTokenAmount_requested:
  assumes "requested v = Some d"
    and "d = double_value m e" and "in_double_range m e"
    and "exact_token_amount d = double_value m' e'" and "in_double_range m' e'"
  shows "calculateTokenAmount (ToNumber v) = Fin (exact_token_amount d)"
proof -
  have "round_to_double d = Fin d"
    using assms(3) unfolding assms(2) by (rule round_to_double_value)
  with assms(1) have v: "ToNumber v = Fin d" by (rule ToNumber_requested)
  have prod: "d * 10 ^ 18 = double_value m' e'"
    using assms(4) by (simp add: exact_token_amount_def)
  have "round_to_double (d * 10 ^ 18) = Fin (d * 10 ^ 18)"
    using assms(5) unfolding prod by (rule round_to_double_value)
  then have "calculateTokenAmount (Fin d) = Fin (d * 10 ^ 18)"
    by (rule calculateTokenAmount_of_exact_product)
  then show ?thesis by (simp add: v exact_token_amount_def)
qed

text \<open>
  Claim C2, as amended. The token amount is the product of the requested amount and
  \<open>10 ^ 18\<close>, divided by the price \<open>1\<close>, in binary64 arithmetic. It is exactly
  \<open>usdtAmount / tokenPrice * 10 ^ 18\<close> whenever the requested amount and that product
  are both binary64 values: an integer below \<open>2 ^ 53\<close> times a power of two.
\<close>

theorem calculateTokenAmount_exact:
  assumes "requested v = Some d"
    and "d = double_value m e" and "in_double_range m e"
    and "exact_token_amount d = double_value m' e'" and "in_double_range m' e'"
  shows "calculateTokenAmount (ToNumber v) = Fin (exact_token_amount d)"
  using assms by (rule calculateTokenAmount_requested)

lemma requested_80: "requested (JString ''80'') = Some 80"
  by code_simp

lemma double_80: "double_value 5 4 = 80" "in_double_range 5 4"
  by code_simp+

lemma exact_80: "exact_token_amount 80 = 80000000000000000000"
  by (simp add: exact_token_amount_def)

lemma double_tokens_80:
  "double_value 19073486328125 22 = 80000000000000000000"
  "in_double_range 19073486328125 22"
  by code_simp+

lemma double_3_2: "double_value 3 (- 1) = 3 / 2" "in_double_range 3 (- 1)"
  by code_simp+

lemma exact_3_2: "exact_token_amount (3 / 2) = 1500000000000000000"
  by (simp add: exact_token_amount_def)

lemma double_tokens_3_2:
  "double_value 11444091796875 17 = 1500000000000000000"
  "in_double_range 11444091796875 17"
  by code_simp+

text \<open>The amounts 80, sent as a string, and 1.5, sent as a number.\<close>

theorem calculateTokenAmount_exact_witness:
  "requested (JString ''80'') = Some 80 \<and>
   calculateTokenAmount (ToNumber (JString ''80'')) = Fin 80000000000000000000 \<and>
   calculateTokenAmount (ToNumber (JNumber (Fin (3 / 2)))) = Fin 1500000000000000000"
proof -
  have a: "calculateTokenAmount (ToNumber (JString ''80'')) = Fin (exact_token_amount 80)"
    by (rule calculateTokenAmount_exact [of _ _ 5 4 19073486328125 22])
      (simp_all only: requested_80 double_80 exact_80 double_tokens_80)
  have b: "calculateTokenAmount (ToNumber (JNumber (Fin (3 / 2)))) =
           Fin (exact_token_amount (3 / 2))"
    by (rule calculateTokenAmount_exact [of _ _ 3 "- 1" 11444091796875 17])
      (simp_all only: requested.simps double_3_2 exact_3_2 double_tokens_3_2)
  from a b show ?thesis by (simp only: requested_80 exact_80 exact_3_2 simp_thms)
qed

text \<open>
  In particular the token amount is exact for every whole number of stablecoins \<open>n\<close>
  with \<open>n * 5 ^ 18 < 2 ^ 53\<close>, that is for \<open>n\<close> from 1 to 2361.
\<close>

lemma calculateTokenAmount_whole:
  assumes "0 < n" and "n * 5 ^ 18 < 2 ^ 53"
  shows "calculateTokenAmount (Fin (of_int n)) = Fin (exact_token_amount (of_int n))"
proof -
  have prod: "(of_int n * 10 ^ 18 :: rat) = of_int (n * 5 ^ 18) * 2 powi 18" by simp
  have "round_to_double (of_int (n * 5 ^ 18) * 2 powi 18) =
        Fin (of_int (n * 5 ^ 18) * 2 powi 18)"
    using assms by (intro round_to_double_exact) simp_all
  then have "round_to_double (of_int n * 10 ^ 18) = Fin (of_int n * 10 ^ 18)"
    by (simp only: prod)
  then have "calculateTokenAmount (Fin (of_int n)) = Fin (of_int n * 10 ^ 18)"
    by (rule calculateTokenAmount_of_exact_product)
  then show ?thesis by (simp add: exact_token_amount_def)
qed

text \<open>
  Claim C2 as stated fails: for the amount \<^verbatim>\<open>1.1\<close> the computed token amount is the
  binary64 value \<open>1100000000000000128\<close>, not \<open>1.1 * 10 ^ 18\<close>.
\<close>

theorem calculateTokenAmount_decimal_counterexample:
  "requested (JString ''1.1'') = Some (11 / 10) \<and>
   calculateTokenAmount (ToNumber (JString ''1.1'')) = Fin 1100000000000000128 \<and>
   Fin 1100000000000000128 \<noteq> Fin (exact_token_amount (11 / 10))"
  by code_simp

section \<open>The purchase handler: outcomes\<close>



lemma sample_amount_80: "parseUnits ''80'' USDT_DECIMALS = Inr 80000000"
  by code_simp


lemma sample_token_units_80:
  "parseUnits ''80000000000000000000'' TOKEN_DECIMALS =
     Inr 80000000000000000000000000000000000000"
  by code_simp

lemma sample_request_fields:
  "body_buyerAddress (sample_request v) = Some ''0xBuyer''"
  "body_usdtAmount (sample_request v) = v"
  by (simp_all add: sample_request_def)

lemma sample_chain_fields:
  "ADMIN_ADDRESS (sample_chain b al m) = ''0xAdmin''"
  "balanceOf (sample_chain b al m) who = Inr b"
  "allowance (sample_chain b al m) who spender = Inr al"
  "transferFrom (sample_chain b al m) who to v = Inr ''0xpay''"
  "mint (sample_chain b al m) to v = m"
  "now (sample_chain b al m) = 1700000000000"
  "library_message (sample_chain b al m) = fault_name"
  by (simp_all add: sample_chain_def)





text \<open>
  When the two amounts convert, an insufficient balance is answered with status 400 and
  the required and available amounts; nothing is written.
\<close>

lemma buy_tokens_insufficient_balance:
  assumes "body_buyerAddress req = Some buyer" and "buyer \<noteq> []"
    and "\<not> falsy (body_usdtAmount req)"
    and "parseUnits (js_toString (body_usdtAmount req)) USDT_DECIMALS = Inr a"
    and "parseUnits (Number_toString (calculateTokenAmount (ToNumber (body_usdtAmount req))))
           TOKEN_DECIMALS = Inr t"
    and "balanceOf env buyer = Inr b" and "b < a"
  shows "buy_tokens env req l =
    (Some \<lparr>http_status = 400, json = ErrorRequiredAvailable ''Insufficient USDT balance''
        (formatUnits a USDT_DECIMALS) (formatUnits b USDT_DECIMALS)\<rparr>, l, [])"
  using assms by (simp add: buy_tokens_def Let_def)

text \<open>
  Claim C3 fails on the code. A request for 1000 stablecoins by a buyer who holds 5 is
  not answered with status 400 and the insufficient-balance error: the token amount
  \<open>10 ^ 21\<close> prints as \<^verbatim>\<open>1e+21\<close>, which \<open>parseUnits\<close> refuses before the balance is read,
  and the handler answers with status 500 and the library's text for that fault,
  whatever that text is. The same holds when the amount arrives as the JSON number 1000.
\<close>

theorem buy_tokens_balance_1000:
  "parseUnits (js_toString (JString ''1000'')) USDT_DECIMALS = Inr 1000000000 \<and>
   balanceOf (sample_chain 5000000 0 (Inr ''0xmint'')) ''0xBuyer'' = Inr 5000000 \<and>
   Number_toString (calculateTokenAmount (ToNumber (JString ''1000''))) = ''1e+21'' \<and>
   buy_tokens ((sample_chain 5000000 0 (Inr ''0xmint''))\<lparr>library_message := wording\<rparr>)
       (sample_request (JString ''1000'')) []
     = (Some \<lparr>http_status = 500, json = ErrorDetails ''Failed to process token purchase''
          (wording (InvalidString ''1e+21''))\<rparr>, [], []) \<and>
   buy_tokens ((sample_chain 5000000 0 (Inr ''0xmint''))\<lparr>library_message := wording\<rparr>)
       (sample_request (JNumber (Fin 1000))) []
     = (Some \<lparr>http_status = 500, json = ErrorDetails ''Failed to process token purchase''
          (wording (InvalidString ''1e+21''))\<rparr>, [], [])"
  by code_simp

text \<open>
  Claim C4, as amended. When the two amounts convert and the balance covers the
  requested amount \<open>a\<close> but the allowance \<open>al\<close> does not, no chain write is attempted,
  the ledger is unchanged and the response has status 400 with the insufficient-allowance
  error, the required and the approved amount as \<open>formatUnits\<close> prints them.
\<close>

theorem buy_tokens_insufficient_allowance:
  assumes "body_buyerAddress req = Some buyer" and "buyer \<noteq> []"
    and "\<not> falsy (body_usdtAmount req)"
    and "parseUnits (js_toString (body_usdtAmount req)) USDT_DECIMALS = Inr a"
    and "parseUnits (Number_toString (calculateTokenAmount (ToNumber (body_usdtAmount req))))
           TOKEN_DECIMALS = Inr t"
    and "balanceOf env buyer = Inr b" and "a \<le> b"
    and "allowance env buyer (ADMIN_ADDRESS env) = Inr al" and "al < a"
  shows "buy_tokens env req l =
    (Some \<lparr>http_status = 400, json = ErrorRequiredApproved
        ''Insufficient USDT allowance. Please approve USDT transfer first.''
        (formatUnits a USDT_DECIMALS) (formatUnits al USDT_DECIMALS)\<rparr>, l, [])"
  using assms by (simp add: buy_tokens_def Let_def)

lemma sample_computed_80:
  "Number_toString (calculateTokenAmount (StringToNumber ''80'')) = ''80000000000000000000''"
  by code_simp

lemma formatUnits_80: "formatUnits 80000000 USDT_DECIMALS = ''80.0''"
  by code_simp

lemma formatUnits_50: "formatUnits 50000000 USDT_DECIMALS = ''50.0''"
  by code_simp

text \<open>
  The example of the claim: balance 100, allowance 50, request 80. The amounts are
  printed as \<^verbatim>\<open>80.0\<close> and \<^verbatim>\<open>50.0\<close>.
\<close>

theorem buy_tokens_insufficient_allowance_witness:
  "buy_tokens (sample_chain 100000000 50000000 (Inr ''0xmint''))
     (sample_request (JString ''80'')) [] =
   (Some \<lparr>http_status = 400, json = ErrorRequiredApproved
       ''Insufficient USDT allowance. Please approve USDT transfer first.''
       ''80.0'' ''50.0''\<rparr>, [], [])"
  using buy_tokens_insufficient_allowance [of "sample_request (JString ''80'')" "''0xBuyer''"
      80000000 80000000000000000000000000000000000000
      "sample_chain 100000000 50000000 (Inr ''0xmint'')" 100000000 50000000 "[]"]
  by (simp add: sample_amount_80 sample_computed_80 sample_token_units_80
      sample_request_fields sample_chain_fields formatUnits_80 formatUnits_50)

text \<open>
  Claim C4 as stated fails on its example: the response does not carry the strings
  \<^verbatim>\<open>80\<close> and \<^verbatim>\<open>50\<close>.
\<close>

theorem buy_tokens_allowance_example_counterexample:
  "map_option json (fst (buy_tokens (sample_chain 100000000 50000000 (Inr ''0xmint''))
     (sample_request (JString ''80'')) [])) \<noteq>
   Some (ErrorRequiredApproved
     ''Insufficient USDT allowance. Please approve USDT transfer first.'' ''80'' ''50'')"
  by code_simp

text \<open>
  A failing chain write. When the preconditions pass and then a chain write fails, the
  transfer or, after a successful transfer, the mint, the pending record ends with
  status \<open>FAILED\<close> and the sentinel hash. The caller receives the error response of the
  failure (status 400 or 500) when the error object can be printed, and no response
  when it cannot.
\<close>

lemma purchase_failure_status:
  "serializable e \<Longrightarrow> \<exists>r. purchase_failure e = Some r \<and> 400 \<le> http_status r"
  by (simp add: purchase_failure_def)

lemma purchase_failure_none: "\<not> serializable e \<Longrightarrow> purchase_failure e = None"
  by (simp add: purchase_failure_def)

lemma buy_tokens_chain_failure:
  assumes "body_buyerAddress req = Some buyer" and "buyer \<noteq> []"
    and "\<not> falsy (body_usdtAmount req)"
    and "parseUnits (js_toString (body_usdtAmount req)) USDT_DECIMALS = Inr a"
    and "parseUnits (Number_toString (calculateTokenAmount (ToNumber (body_usdtAmount req))))
           TOKEN_DECIMALS = Inr t"
    and "balanceOf env buyer = Inr b" and "a \<le> b"
    and "allowance env buyer (ADMIN_ADDRESS env) = Inr al" and "a \<le> al"
    and "call_transferFrom env buyer (ADMIN_ADDRESS env) a = Inl e \<or>
         (call_transferFrom env buyer (ADMIN_ADDRESS env) a = Inr h1 \<and>
          call_mint env buyer t = Inl e)"
  shows "fst (buy_tokens env req l) = purchase_failure e \<and>
    (serializable e \<longrightarrow> (\<exists>r. purchase_failure e = Some r \<and> 400 \<le> http_status r)) \<and>
    (\<not> serializable e \<longrightarrow> purchase_failure e = None) \<and>
    fst (snd (buy_tokens env req l)) =
      l @ [\<lparr>buyerAddress = buyer, txType = BUY,
             amount = Number_toString (calculateTokenAmount (ToNumber (body_usdtAmount req))),
             status = FAILED, txHash = ''pending'', timestamp = now env,
             tokenPrice = TOKEN_PRICE_USDT,
             usdtAmount = js_toString (body_usdtAmount req)\<rparr>]"
proof -
  have "fst (buy_tokens env req l) = purchase_failure e"
    using assms by (auto simp add: buy_tokens_def Let_def save_new_def save_existing_def)
  moreover have "fst (snd (buy_tokens env req l)) =
      l @ [\<lparr>buyerAddress = buyer, txType = BUY,
             amount = Number_toString (calculateTokenAmount (ToNumber (body_usdtAmount req))),
             status = FAILED, txHash = ''pending'', timestamp = now env,
             tokenPrice = TOKEN_PRICE_USDT,
             usdtAmount = js_toString (body_usdtAmount req)\<rparr>]"
    using assms by (auto simp add: buy_tokens_def Let_def save_new_def save_existing_def)
  ultimately show ?thesis
    using purchase_failure_status [of e] purchase_failure_none [of e] by blast
qed

text \<open>The transfer succeeds and the mint reverts: the caller is answered with status 400.\<close>

lemma buy_tokens_mint_reverted:
  "buy_tokens (sample_chain 100000000 80000000 (Inl reverted))
     (sample_request (JString ''80'')) [] =
   (Some \<lparr>http_status = 400, json = Error ''Blockchain call failed: paused''\<rparr>,
    [\<lparr>buyerAddress = ''0xBuyer'', txType = BUY, amount = ''80000000000000000000'',
       status = FAILED, txHash = ''pending'', timestamp = 1700000000000,
       tokenPrice = Fin 1, usdtAmount = ''80''\<rparr>],
    [TransferFrom ''0xBuyer'' ''0xAdmin'' 80000000,
     Mint ''0xBuyer'' 80000000000000000000000000000000000000])"
  by code_simp

text \<open>
  Claim C5 fails on the code. A request for \<^verbatim>\<open>-5\<close> stablecoins passes the
  preconditions with a balance and an allowance of zero. The transfer then fails in the
  library, which cannot encode the negative amount, with an error object that holds the
  amount as a BigInt. The pending record ends with status \<open>FAILED\<close> and the sentinel
  hash, but the \<^verbatim>\<open>catch\<close> block raises while it logs the error, and the caller
  receives no response.
\<close>

theorem buy_tokens_failure_unanswered:
  "parseUnits (js_toString (JString ''-5'')) USDT_DECIMALS = Inr (- 5000000) \<and>
   call_transferFrom (sample_chain 0 0 (Inr ''0xmint'')) ''0xBuyer'' ''0xAdmin'' (- 5000000) =
     Inl (fault_error fault_name (OutOfBounds (- 5000000))) \<and>
   \<not> serializable (fault_error fault_name (OutOfBounds (- 5000000))) \<and>
   buy_tokens (sample_chain 0 0 (Inr ''0xmint'')) (sample_request (JString ''-5'')) [] =
     (None,
      [\<lparr>buyerAddress = ''0xBuyer'', txType = BUY, amount = ''-5000000000000000000'',
         status = FAILED, txHash = ''pending'', timestamp = 1700000000000,
         tokenPrice = Fin 1, usdtAmount = ''-5''\<rparr>],
      [TransferFrom ''0xBuyer'' ''0xAdmin'' (- 5000000)])"
  by code_simp

text \<open>
  Claim C9. A request rejected by a precondition leaves the ledger as it was: when an
  input is missing, when the balance read is below the requested amount, or when the
  allowance read is below it, no record of any status is inserted.
\<close>

theorem buy_tokens_rejected_ledger_unchanged:
  assumes "falsy (body_usdtAmount req) \<or> body_buyerAddress req = None \<or>
           body_buyerAddress req = Some [] \<or>
           (\<exists>buyer a b. body_buyerAddress req = Some buyer \<and>
              parseUnits (js_toString (body_usdtAmount req)) USDT_DECIMALS = Inr a \<and>
              balanceOf env buyer = Inr b \<and> b < a) \<or>
           (\<exists>buyer a al. body_buyerAddress req = Some buyer \<and>
              parseUnits (js_toString (body_usdtAmount req)) USDT_DECIMALS = Inr a \<and>
              allowance env buyer (ADMIN_ADDRESS env) = Inr al \<and> al < a)"
  shows "fst (snd (buy_tokens env req l)) = l"
  using assms
  by (auto simp add: buy_tokens_def Let_def split: option.splits sum.splits)

theorem buy_tokens_rejected_ledger_unchanged_witness:
  "fst (snd (buy_tokens (sample_chain 100000000 50000000 (Inr ''0xmint''))
     (sample_request (JString ''80'')) [])) = []"
proof -
  have "\<exists>buyer a al.
      body_buyerAddress (sample_request (JString ''80'')) = Some buyer \<and>
      parseUnits (js_toString (body_usdtAmount (sample_request (JString ''80''))))
        USDT_DECIMALS = Inr a \<and>
      allowance (sample_chain 100000000 50000000 (Inr ''0xmint'')) buyer
        (ADMIN_ADDRESS (sample_chain 100000000 50000000 (Inr ''0xmint''))) = Inr al \<and> al < a"
    by (simp add: sample_amount_80 sample_request_fields sample_chain_fields)
  then show ?thesis
    using buy_tokens_rejected_ledger_unchanged
      [of "sample_request (JString ''80'')" "sample_chain 100000000 50000000 (Inr ''0xmint'')"
        "[]"]
    by blast
qed

section \<open>The ledger is append-only\<close>

lemma buy_tokens_ledger:
  "fst (snd (buy_tokens env req l)) = l \<or>
   (\<exists>doc st h. status doc = PENDING \<and> (st = SUCCESS \<or> st = FAILED) \<and>
      snd (save_new doc l) = l @ [doc] \<and>
      fst (snd (buy_tokens env req l)) =
        save_existing (fst (save_new doc l)) (doc\<lparr>status := st, txHash := h\<rparr>)
          (snd (save_new doc l)) \<and>
      fst (snd (buy_tokens env req l)) = l @ [doc\<lparr>status := st, txHash := h\<rparr>])"
proof -
  define doc where "doc = (\<lambda>buyer. \<lparr>buyerAddress = buyer, txType = BUY,
      amount = Number_toString (calculateTokenAmount (ToNumber (body_usdtAmount req))),
      status = PENDING, txHash = ''pending'', timestamp = now env,
      tokenPrice = TOKEN_PRICE_USDT, usdtAmount = js_toString (body_usdtAmount req)\<rparr>)"
  have pending: "status (doc buyer) = PENDING" for buyer by (simp add: doc_def)
  have failed: "doc buyer\<lparr>status := FAILED\<rparr> = doc buyer\<lparr>status := FAILED, txHash := ''pending''\<rparr>"
    for buyer by (simp add: doc_def)
  have saved: "save_existing (fst (save_new d l)) d' (snd (save_new d l)) = l @ [d']" for d d'
    by (simp add: save_new_def save_existing_def)
  have "fst (snd (buy_tokens env req l)) = l \<or>
    (\<exists>buyer. fst (snd (buy_tokens env req l)) = l @ [doc buyer\<lparr>status := FAILED\<rparr>]) \<or>
    (\<exists>buyer h. fst (snd (buy_tokens env req l)) =
       l @ [doc buyer\<lparr>status := SUCCESS, txHash := h\<rparr>])"
    by (simp add: buy_tokens_def Let_def save_new_def save_existing_def doc_def
        split: option.splits sum.splits)
  then consider (same) "fst (snd (buy_tokens env req l)) = l"
    | (fail) buyer where "fst (snd (buy_tokens env req l)) = l @ [doc buyer\<lparr>status := FAILED\<rparr>]"
    | (ok) buyer h where
        "fst (snd (buy_tokens env req l)) = l @ [doc buyer\<lparr>status := SUCCESS, txHash := h\<rparr>]"
    by blast
  then show ?thesis
  proof cases
    case same
    then show ?thesis by simp
  next
    case fail
    have "status (doc buyer) = PENDING \<and> (FAILED = SUCCESS \<or> FAILED = FAILED) \<and>
      snd (save_new (doc buyer) l) = l @ [doc buyer] \<and>
      fst (snd (buy_tokens env req l)) =
        save_existing (fst (save_new (doc buyer) l))
          (doc buyer\<lparr>status := FAILED, txHash := ''pending''\<rparr>) (snd (save_new (doc buyer) l)) \<and>
      fst (snd (buy_tokens env req l)) = l @ [doc buyer\<lparr>status := FAILED, txHash := ''pending''\<rparr>]"
      using fail pending by (simp add: saved failed [symmetric]) (simp add: save_new_def)
    then show ?thesis by blast
  next
    case ok
    have "status (doc buyer) = PENDING \<and> (SUCCESS = SUCCESS \<or> SUCCESS = FAILED) \<and>
      snd (save_new (doc buyer) l) = l @ [doc buyer] \<and>
      fst (snd (buy_tokens env req l)) =
        save_existing (fst (save_new (doc buyer) l))
          (doc buyer\<lparr>status := SUCCESS, txHash := h\<rparr>) (snd (save_new (doc buyer) l)) \<and>
      fst (snd (buy_tokens env req l)) = l @ [doc buyer\<lparr>status := SUCCESS, txHash := h\<rparr>]"
      using ok pending by (simp add: saved) (simp add: save_new_def)
    then show ?thesis by blast
  qed
qed

lemma reporting_reads_only:
  "snd (transaction_history hq l) = l" "snd (sale_stats sq l) = l"
  "snd (export_transactions toISOString eq l) = l"
  by (simp_all add: transaction_history_def sale_stats_def export_transactions_def Let_def
      split: option.splits)

lemma serve_extends:
  "serve toISOString r l = l \<or>
   (\<exists>doc. status doc \<noteq> PENDING \<and> serve toISOString r l = l @ [doc])"
proof (cases r)
  case (BuyTokens env req)
  from buy_tokens_ledger [of env req l]
  consider "fst (snd (buy_tokens env req l)) = l"
    | doc st h where "st = SUCCESS \<or> st = FAILED"
        "fst (snd (buy_tokens env req l)) = l @ [doc\<lparr>status := st, txHash := h\<rparr>]"
    by blast
  then show ?thesis
  proof cases
    case 1
    then show ?thesis by (simp add: BuyTokens)
  next
    case 2
    from 2(1) have "status (doc\<lparr>status := st, txHash := h\<rparr>) \<noteq> PENDING" by auto
    with 2(2) show ?thesis unfolding BuyTokens serve.simps by blast
  qed
qed (simp_all add: reporting_reads_only)

lemma serve_all_extends:
  "\<exists>new. serve_all toISOString rs l = l @ new \<and> list_all (\<lambda>t. status t \<noteq> PENDING) new"
proof (induction rs arbitrary: l)
  case Nil
  then show ?case by (simp add: serve_all_def)
next
  case (Cons r rs)
  have step: "serve_all toISOString (r # rs) l = serve_all toISOString rs (serve toISOString r l)"
    by (simp add: serve_all_def)
  from Cons [of "serve toISOString r l"] obtain new where
    new: "serve_all toISOString rs (serve toISOString r l) = serve toISOString r l @ new"
      "list_all (\<lambda>t. status t \<noteq> PENDING) new" by blast
  from serve_extends [of toISOString r l] show ?case
  proof (elim disjE exE conjE)
    assume "serve toISOString r l = l"
    with new step show ?thesis by auto
  next
    fix doc
    assume "status doc \<noteq> PENDING" and "serve toISOString r l = l @ [doc]"
    with new step have "serve_all toISOString (r # rs) l = l @ (doc # new) \<and>
      list_all (\<lambda>t. status t \<noteq> PENDING) (doc # new)" by simp
    then show ?thesis by blast
  qed
qed

text \<open>
  Claim C6. The reporting handlers (history, statistics, export) leave the ledger as it
  is. A purchase either leaves it as it is or inserts one record with status \<open>PENDING\<close>
  and updates that same record once, to \<open>SUCCESS\<close> or \<open>FAILED\<close>. Over any sequence
  of requests the records present at the start stay in place unchanged, so none is
  deleted or modified again, and every record added since has left \<open>PENDING\<close>.
\<close>

theorem ledger_append_only:
  "serve toISOString (TransactionHistory hq) l = l \<and>
   serve toISOString (SaleStats sq) l = l \<and>
   serve toISOString (ExportTransactions eq) l = l \<and>
   (serve toISOString (BuyTokens env req) l = l \<or>
    (\<exists>doc st h. status doc = PENDING \<and> (st = SUCCESS \<or> st = FAILED) \<and>
       serve toISOString (BuyTokens env req) l =
         save_existing (fst (save_new doc l)) (doc\<lparr>status := st, txHash := h\<rparr>)
           (snd (save_new doc l)))) \<and>
   take (length l) (serve_all toISOString rs l) = l \<and>
   list_all (\<lambda>t. status t \<noteq> PENDING) (drop (length l) (serve_all toISOString rs l))"
proof -
  have "serve toISOString (BuyTokens env req) l = l \<or>
    (\<exists>doc st h. status doc = PENDING \<and> (st = SUCCESS \<or> st = FAILED) \<and>
       serve toISOString (BuyTokens env req) l =
         save_existing (fst (save_new doc l)) (doc\<lparr>status := st, txHash := h\<rparr>)
           (snd (save_new doc l)))"
    using buy_tokens_ledger [of env req l] by (simp only: serve.simps) blast
  moreover obtain new where "serve_all toISOString rs l = l @ new"
    and "list_all (\<lambda>t. status t \<noteq> PENDING) new"
    using serve_all_extends by blast
  ultimately show ?thesis by (simp add: reporting_reads_only)
qed

section \<open>Transaction history\<close>

lemma newest_first_sorted: "sorted_wrt (\<lambda>x y. timestamp y \<le> timestamp x) (newest_first ts)"
proof -
  have "sorted (map (\<lambda>t. - timestamp t) (sort_key (\<lambda>t. - timestamp t) ts))"
    by (rule sorted_sort_key)
  then show ?thesis by (simp add: newest_first_def sorted_map)
qed

lemma newest_first_set: "set (newest_first ts) = set ts"
  by (simp add: newest_first_def)

text \<open>
  Claim C7. For a request with an address, page \<open>p \<ge> 1\<close> and page size \<open>s \<ge> 1\<close>
  (1 and 10 when omitted), the response holds the \<open>p\<close>-th page of the buyer's records
  that pass the filters, newest first: at most \<open>s\<close> records, each matching; \<open>total\<close>
  is the number of all matching records and \<open>pages\<close> is \<open>\<lceil>total / s\<rceil>\<close>.
\<close>

theorem transaction_history_page:
  fixes q :: history_query and l :: ledger
  defines "p \<equiv> (case q_page q of None \<Rightarrow> 1 | Some n \<Rightarrow> n)"
    and "s \<equiv> (case q_limit q of None \<Rightarrow> 10 | Some n \<Rightarrow> n)"
  assumes "q_address q = Some address" and "address \<noteq> []" and "0 < p" and "0 < s"
  shows "\<exists>ts. transaction_history q l =
      (\<lparr>http_status = 200, json = History ts
          \<lparr>total = length (filter (history_filter q address) l), page = p, limit = s,
           pages = Some (nat \<lceil>rat_of_nat (length (filter (history_filter q address) l)) /
                               rat_of_nat s\<rceil>)\<rparr>\<rparr>, l) \<and>
    ts = take s (drop ((p - 1) * s) (newest_first (filter (history_filter q address) l))) \<and>
    length ts \<le> s \<and>
    set ts \<subseteq> {t \<in> set l. history_filter q address t} \<and>
    sorted_wrt (\<lambda>x y. timestamp y \<le> timestamp x) ts"
proof -
  let ?all = "newest_first (filter (history_filter q address) l)"
  let ?ts = "take s (drop ((p - 1) * s) ?all)"
  have skip: "(int p - 1) * int s = int ((p - 1) * s)"
    using \<open>0 < p\<close> by (simp add: of_nat_diff)
  have "transaction_history q l =
      (\<lparr>http_status = 200, json = History ?ts
          \<lparr>total = length (filter (history_filter q address) l), page = p, limit = s,
           pages = Some (nat \<lceil>rat_of_nat (length (filter (history_filter q address) l)) /
                               rat_of_nat s\<rceil>)\<rparr>\<rparr>, l)"
    using assms(3,4,6) unfolding transaction_history_def p_def [symmetric] s_def [symmetric]
    by (simp add: Let_def skip find_docs_def countDocuments_def del: of_nat_mult)
  moreover have "length ?ts \<le> s" by simp
  moreover have "set ?ts \<subseteq> {t \<in> set l. history_filter q address t}"
  proof -
    have "set ?ts \<subseteq> set ?all"
      by (meson set_take_subset set_drop_subset subset_trans)
    then show ?thesis by (auto simp add: newest_first_set)
  qed
  moreover have "sorted_wrt (\<lambda>x y. timestamp y \<le> timestamp x) ?ts"
    by (intro sorted_wrt_take sorted_wrt_drop newest_first_sorted)
  ultimately show ?thesis by blast
qed

theorem transaction_history_page_witness:
  "transaction_history sample_page sample_ledger =
     (\<lparr>http_status = 200, json = History [sample_sale ''0xA'' ''10'' 1700000000000 SUCCESS]
         \<lparr>total = 2, page = 2, limit = 1, pages = Some 2\<rparr>\<rparr>, sample_ledger)"
proof -
  have fields: "q_address sample_page = Some ''0xA''" "q_page sample_page = Some 2"
    "q_limit sample_page = Some 1"
    by (simp_all add: sample_page_def)
  have found: "newest_first (filter (history_filter sample_page ''0xA'') sample_ledger) =
      [sample_sale ''0xA'' ''7'' 1700003600000 FAILED,
       sample_sale ''0xA'' ''10'' 1700000000000 SUCCESS]"
    by code_simp
  have count: "length (filter (history_filter sample_page ''0xA'') sample_ledger) = 2"
    by code_simp
  from transaction_history_page [of sample_page "''0xA''" sample_ledger]
  show ?thesis by (simp add: fields found count)
qed

section \<open>Sale statistics\<close>


























text \<open>
  The statistics are defined on every ledger the server can build: the purchase handler
  only stores amounts that \<open>parseUnits\<close> has read, which are decimal literals.
\<close>

lemma to_rows_defined: "list_all decimal_amounts ts \<Longrightarrow> \<exists>rs. to_rows ts = Some rs"
  by (induction ts) (auto simp add: decimal_amounts_def to_row_def)

lemma sale_stats_defined:
  assumes "list_all decimal_amounts l"
  shows "\<exists>totalStats dailyStats topBuyers. sale_stats q l =
    (\<lparr>http_status = 200, json = Stats totalStats dailyStats topBuyers\<rparr>, l)"
proof -
  have "list_all decimal_amounts (filter (stats_match q) l)"
    using assms by (simp add: list_all_iff)
  then obtain rs where "to_rows (filter (stats_match q) l) = Some rs"
    using to_rows_defined by blast
  then show ?thesis by (simp add: sale_stats_def Let_def)
qed

lemma parseUnits_decimal: "parseUnits s d = Inr v \<Longrightarrow> toDouble s \<noteq> None"
  by (auto simp add: parseUnits_def toDouble_def split: option.splits)

lemma buy_tokens_decimal:
  assumes "list_all decimal_amounts l"
  shows "list_all decimal_amounts (fst (snd (buy_tokens env req l)))"
  using assms
  by (auto simp add: buy_tokens_def Let_def save_new_def save_existing_def decimal_amounts_def
      dest: parseUnits_decimal split: option.splits sum.splits)

lemma serve_decimal:
  "list_all decimal_amounts l \<Longrightarrow> list_all decimal_amounts (serve toISOString r l)"
  by (cases r) (simp_all add: buy_tokens_decimal reporting_reads_only)

lemma serve_all_decimal:
  "list_all decimal_amounts l \<Longrightarrow> list_all decimal_amounts (serve_all toISOString rs l)"
  unfolding serve_all_def by (induction rs arbitrary: l) (simp_all add: serve_decimal)

lemma sale_stats_served:
  "\<exists>totalStats dailyStats topBuyers. sale_stats q (serve_all toISOString rs []) =
    (\<lparr>http_status = 200, json = Stats totalStats dailyStats topBuyers\<rparr>,
     serve_all toISOString rs [])"
  by (rule sale_stats_defined) (simp add: serve_all_decimal)

text \<open>
  Claim C10. When no successful purchase matches the date filter, the response still
  carries a \<open>totalStats\<close> object, with all four fields zero.
\<close>

theorem sale_stats_no_match:
  assumes "filter (stats_match q) l = []"
  shows "sale_stats q l =
    (\<lparr>http_status = 200, json = Stats
        \<lparr>totalTokensSold = Fin 0, totalUsdtRaised = Fin 0, transactionCount = 0,
         averagePurchaseAmount = Fin 0\<rparr> [] []\<rparr>, l)"
  using assms by (simp add: sale_stats_def group_by_def no_stats_def)

theorem sale_stats_no_match_witness:
  "sale_stats after_sales sample_ledger =
    (\<lparr>http_status = 200, json = Stats
        \<lparr>totalTokensSold = Fin 0, totalUsdtRaised = Fin 0, transactionCount = 0,
         averagePurchaseAmount = Fin 0\<rparr> [] []\<rparr>, sample_ledger)"
proof -
  have "filter (stats_match after_sales) sample_ledger = []" by code_simp
  then show ?thesis by (rule sale_stats_no_match)
qed

end
